theory Spec2Isabelle
  imports Complex_Main "HOL-Library.Word"
begin

section \<open>Digest engine (HashUtil)\<close>

text \<open>
  The embedding follows the TypeScript classes \<open>HashUtil\<close>, \<open>Transaction\<close>, \<open>Block\<close> and
  \<open>Blockchain\<close>, method by method.
  \<^item> Strings are \<^typ>\<open>string\<close>; \<open>charCodeAt\<close> is the character code (code units below 256).
  \<^item> Numbers that count (block index, nonce, difficulty, transactions per block) are
    \<^typ>\<open>nat\<close>, millisecond timestamps are \<^typ>\<open>int\<close>, and amounts, fees and rewards are
    \<^typ>\<open>real\<close>: the arithmetic of the ledger is exact, without the rounding of doubles.
  \<^item> A method that mutates its object returns the new object; \<open>Date.now()\<close> is an argument.
  \<^item> Fields carry the prefix of their class (\<open>tx_\<close>, \<open>blk_\<close>), as do methods that two
    classes share (\<open>tx_calculateHash\<close>, \<open>blk_calculateHash\<close>, \<open>blk_mineBlock\<close>).
  \<^item> \<open>console\<close> output and the progress callback of the miner only observe and are left out.
\<close>

subsection \<open>String helpers of the host language\<close>

definition digit_char :: "nat \<Rightarrow> char" where
  "digit_char d = (''0123456789abcdef'') ! d"

text \<open>
  \<open>Number.prototype.toString(radix)\<close> on a non-negative integer; with radix 10 it is also
  how a template literal prints one.
\<close>

fun toStringRadix :: "nat \<Rightarrow> nat \<Rightarrow> string" where
  "toStringRadix r n =
     (if r < 2 \<or> n < r then [digit_char n]
      else toStringRadix r (n div r) @ [digit_char (n mod r)])"

declare toStringRadix.simps [simp del]

definition natToString :: "nat \<Rightarrow> string" where
  "natToString n = toStringRadix 10 n"

definition intToString :: "int \<Rightarrow> string" where
  "intToString i = (if i < 0 then CHR ''-'' # natToString (nat (- i)) else natToString (nat i))"

text \<open>At most \<open>k\<close> decimal places of a fraction \<open>0 \<le> f < 1\<close>, stopping when nothing is left.\<close>

fun fracDigits :: "nat \<Rightarrow> real \<Rightarrow> string" where
  "fracDigits 0 f = []"
| "fracDigits (Suc k) f =
     (if f = 0 then []
      else digit_char (nat \<lfloor>10 * f\<rfloor>) # fracDigits k (10 * f - of_int \<lfloor>10 * f\<rfloor>))"

text \<open>
  An amount inside a template literal: the decimal numeral of the value, with at most 20
  decimal places. For whole numbers and short decimal fractions of ordinary size (no
  exponent notation) this is what \<open>Number::toString\<close> prints.
\<close>

definition numberToString :: "real \<Rightarrow> string" where
  "numberToString q =
     (let a = \<bar>q\<bar>; ip = nat \<lfloor>a\<rfloor>; f = a - of_int \<lfloor>a\<rfloor>
      in (if q < 0 then ''-'' else '''') @ natToString ip @
         (if f = 0 then '''' else CHR ''.'' # fracDigits 20 f))"

definition padStart :: "nat \<Rightarrow> char \<Rightarrow> string \<Rightarrow> string" where
  "padStart n c s = replicate (n - length s) c @ s"

definition repeat :: "nat \<Rightarrow> string \<Rightarrow> string" where
  "repeat n s = concat (replicate n s)"

definition substring :: "nat \<Rightarrow> nat \<Rightarrow> string \<Rightarrow> string" where
  "substring i j s = take (j - i) (drop i s)"

subsection \<open>sha256Sync\<close>

text \<open>
  One round of the loop body \<open>hash = ((hash << 5) - hash) + char; hash = hash & hash\<close>:
  the value is kept as a 32-bit two's-complement integer.
\<close>

definition hash_step :: "32 word \<Rightarrow> char \<Rightarrow> 32 word" where
  "hash_step h c = (push_bit 5 h - h) + word_of_nat (of_char c)"

definition sha256Sync :: "string \<Rightarrow> string" where
  "sha256Sync data =
     substring 0 64 (repeat 8 (padStart 8 CHR ''0''
       (toStringRadix 16 (nat \<bar>sint (foldl hash_step 0 data)\<bar>))))"

definition isValidProofOfWork :: "string \<Rightarrow> nat \<Rightarrow> bool" where
  "isValidProofOfWork h difficulty = (substring 0 difficulty h = replicate difficulty CHR ''0'')"

subsection \<open>Merkle root\<close>

text \<open>
  The inner \<open>for (i = 0; i < hashes.length; i += 2)\<close> loop that builds \<open>nextLevel\<close>:
  \<open>left = hashes[i]\<close>, \<open>right = hashes[i + 1]\<close> when that index exists and \<open>left\<close>
  otherwise.
\<close>

definition nextLevel :: "string list \<Rightarrow> string list" where
  "nextLevel hashes =
     map (\<lambda>k. let i = 2 * k; left = hashes ! i;
                   right = (if i + 1 < length hashes then hashes ! (i + 1) else left)
               in sha256Sync (left @ right))
         [0 ..< (length hashes + 1) div 2]"

text \<open>The outer \<open>while (hashes.length > 1)\<close> loop.\<close>

function merkleLevels :: "string list \<Rightarrow> string list" where
  "merkleLevels hashes =
     (if length hashes > 1 then merkleLevels (nextLevel hashes) else hashes)"
  by pat_completeness auto
termination
  by (relation "measure length") (auto simp: nextLevel_def)

declare merkleLevels.simps [simp del]

text \<open>
  \<open>HashUtil.calculateMerkleRoot\<close>. The final \<open>hashes[0]\<close> is read from a list that the
  loop has reduced to exactly one element (\<open>merkleLevels_reduceToOne\<close> and
  \<open>reduceToOne_single\<close> below).
\<close>

definition calculateMerkleRoot :: "string list \<Rightarrow> string" where
  "calculateMerkleRoot transactions =
     (if length transactions = 0 then sha256Sync ''''
      else if length transactions = 1 then sha256Sync (transactions ! 0)
      else merkleLevels (map sha256Sync transactions) ! 0)"

section \<open>Transaction\<close>

record transaction =
  tx_from :: string
  tx_to :: string
  tx_amount :: real
  tx_fee :: real
  tx_timestamp :: int
  tx_signature :: string
  tx_hash :: string

text \<open>The constructor argument \<open>TransactionData\<close>; \<open>signature\<close> is optional.\<close>

record transaction_data =
  td_from :: string
  td_to :: string
  td_amount :: real
  td_fee :: real
  td_timestamp :: int
  td_signature :: "string option"

definition tx_calculateHash :: "transaction \<Rightarrow> string" where
  "tx_calculateHash t =
     sha256Sync (tx_from t @ tx_to t @ numberToString (tx_amount t) @
                 numberToString (tx_fee t) @ intToString (tx_timestamp t))"

text \<open>\<open>new Transaction(data)\<close>; \<open>data.signature || ''\<close> makes a missing signature empty.\<close>

definition new_Transaction :: "transaction_data \<Rightarrow> transaction" where
  "new_Transaction data =
     (let t = \<lparr> tx_from = td_from data, tx_to = td_to data, tx_amount = td_amount data,
                tx_fee = td_fee data, tx_timestamp = td_timestamp data,
                tx_signature = (case td_signature data of None \<Rightarrow> '''' | Some s \<Rightarrow> s),
                tx_hash = '''' \<rparr>
      in t\<lparr>tx_hash := tx_calculateHash t\<rparr>)"

definition signTransaction :: "string \<Rightarrow> transaction \<Rightarrow> transaction" where
  "signTransaction privateKey t =
     (let t1 = t\<lparr>tx_signature :=
                  sha256Sync (tx_from t @ tx_to t @ numberToString (tx_amount t) @
                              numberToString (tx_fee t) @ intToString (tx_timestamp t) @
                              privateKey)\<rparr>
      in t1\<lparr>tx_hash := tx_calculateHash t1\<rparr>)"

definition isValid :: "transaction \<Rightarrow> bool" where
  "isValid t =
     (if tx_from t = tx_to t then False
      else if tx_amount t \<le> 0 then False
      else if tx_fee t < 0 then False
      else if tx_signature t = '''' then False
      else if tx_from t = ''SYSTEM'' then True
      else True)"

text \<open>\<open>Date.now()\<close> is an input of the model: the argument \<open>now\<close>.\<close>

definition createCoinbaseTransaction :: "int \<Rightarrow> string \<Rightarrow> real \<Rightarrow> transaction" where
  "createCoinbaseTransaction now to amount =
     new_Transaction \<lparr> td_from = ''SYSTEM'', td_to = to, td_amount = amount, td_fee = 0,
                       td_timestamp = now, td_signature = None \<rparr>"

text \<open>The plain object produced by \<open>toObject\<close> and read by \<open>fromObject\<close>.\<close>

record transaction_obj =
  to_from :: string
  to_to :: string
  to_amount :: real
  to_fee :: real
  to_timestamp :: int
  to_signature :: string
  to_hash :: string

definition tx_toObject :: "transaction \<Rightarrow> transaction_obj" where
  "tx_toObject t =
     \<lparr> to_from = tx_from t, to_to = tx_to t, to_amount = tx_amount t, to_fee = tx_fee t,
       to_timestamp = tx_timestamp t, to_signature = tx_signature t, to_hash = tx_hash t \<rparr>"

definition tx_fromObject :: "transaction_obj \<Rightarrow> transaction" where
  "tx_fromObject data =
     (let transaction = new_Transaction
            \<lparr> td_from = to_from data, td_to = to_to data, td_amount = to_amount data,
              td_fee = to_fee data, td_timestamp = to_timestamp data,
              td_signature = Some (to_signature data) \<rparr>
      in transaction\<lparr>tx_hash := to_hash data\<rparr>)"

section \<open>Block\<close>

record block =
  blk_index :: nat
  blk_timestamp :: int
  blk_transactions :: "transaction list"
  blk_previousHash :: string
  blk_nonce :: nat
  blk_hash :: string
  blk_merkleRoot :: string

text \<open>The constructor argument \<open>BlockData\<close>; \<open>nonce\<close> and \<open>hash\<close> are optional.\<close>

record block_data =
  bd_index :: nat
  bd_timestamp :: int
  bd_transactions :: "transaction list"
  bd_previousHash :: string
  bd_nonce :: "nat option"
  bd_hash :: "string option"

definition blk_calculateHash :: "block \<Rightarrow> string" where
  "blk_calculateHash b =
     sha256Sync (natToString (blk_index b) @ blk_previousHash b @
                 intToString (blk_timestamp b) @ blk_merkleRoot b @
                 natToString (blk_nonce b))"

definition blk_calculateMerkleRoot :: "block \<Rightarrow> string" where
  "blk_calculateMerkleRoot b =
     (if length (blk_transactions b) = 0 then sha256Sync ''''
      else calculateMerkleRoot (map tx_hash (blk_transactions b)))"

text \<open>
  \<open>new Block(data)\<close>: the Merkle root is computed before the hash;
  \<open>data.nonce || 0\<close> and \<open>data.hash || this.calculateHash()\<close> treat a missing value,
  \<open>0\<close> and the empty string alike.
\<close>

definition new_Block :: "block_data \<Rightarrow> block" where
  "new_Block data =
     (let b0 = \<lparr> blk_index = bd_index data, blk_timestamp = bd_timestamp data,
                 blk_transactions = bd_transactions data,
                 blk_previousHash = bd_previousHash data,
                 blk_nonce = (case bd_nonce data of None \<Rightarrow> 0 | Some n \<Rightarrow> n),
                 blk_hash = '''', blk_merkleRoot = '''' \<rparr>;
          b1 = b0\<lparr>blk_merkleRoot := blk_calculateMerkleRoot b0\<rparr>
      in b1\<lparr>blk_hash := (case bd_hash data of
                                None \<Rightarrow> blk_calculateHash b1
                              | Some h \<Rightarrow> if h = '''' then blk_calculateHash b1 else h)\<rparr>)"

text \<open>One pass through the body of the mining loop: \<open>nonce++\<close>, then the hash again.\<close>

definition mineStep :: "block \<Rightarrow> block" where
  "mineStep b =
     (let b1 = b\<lparr>blk_nonce := blk_nonce b + 1\<rparr>
      in b1\<lparr>blk_hash := blk_calculateHash b1\<rparr>)"

text \<open>
  \<open>Block.mineBlock(difficulty)\<close>. The loop has no bound, so the model is a partial
  function: \<open>None\<close> is the run that never leaves the loop. The progress callback only
  observes the search and is left out.
\<close>

partial_function (option) blk_mineBlock :: "nat \<Rightarrow> block \<Rightarrow> block option" where
  "blk_mineBlock difficulty b =
     (if substring 0 difficulty (blk_hash b) \<noteq> replicate difficulty CHR ''0''
      then blk_mineBlock difficulty (mineStep b)
      else Some b)"

text \<open>The \<open>for\<close> loop of \<open>validateTransactions\<close>, which leaves at the first invalid one.\<close>

fun validateTransactions_loop :: "transaction list \<Rightarrow> bool" where
  "validateTransactions_loop [] = True"
| "validateTransactions_loop (t # ts) =
     (if \<not> isValid t then False else validateTransactions_loop ts)"

definition validateTransactions :: "block \<Rightarrow> bool" where
  "validateTransactions b = validateTransactions_loop (blk_transactions b)"

text \<open>\<open>isValidBlock(previousBlock?, difficulty?)\<close>; both arguments are optional.\<close>

definition isValidBlock :: "block \<Rightarrow> block option \<Rightarrow> nat option \<Rightarrow> bool" where
  "isValidBlock b previousBlock difficulty =
     (if blk_hash b \<noteq> blk_calculateHash b then False
      else if blk_merkleRoot b \<noteq> blk_calculateMerkleRoot b then False
      else if (case previousBlock of None \<Rightarrow> False
               | Some p \<Rightarrow> blk_previousHash b \<noteq> blk_hash p) then False
      else if (case difficulty of None \<Rightarrow> False
               | Some d \<Rightarrow> \<not> isValidProofOfWork (blk_hash b) d) then False
      else if \<not> validateTransactions b then False
      else True)"

definition createGenesisBlock :: "int \<Rightarrow> int \<Rightarrow> block" where
  "createGenesisBlock now_tx now_blk =
     (let genesisTransaction = createCoinbaseTransaction now_tx ''genesis'' 100
      in new_Block \<lparr> bd_index = 0, bd_timestamp = now_blk,
                      bd_transactions = [genesisTransaction],
                      bd_previousHash = repeat 64 ''0'', bd_nonce = None, bd_hash = None \<rparr>)"

record block_obj =
  bo_index :: nat
  bo_timestamp :: int
  bo_transactions :: "transaction_obj list"
  bo_previousHash :: string
  bo_nonce :: nat
  bo_hash :: string
  bo_merkleRoot :: string

definition blk_toObject :: "block \<Rightarrow> block_obj" where
  "blk_toObject b =
     \<lparr> bo_index = blk_index b, bo_timestamp = blk_timestamp b,
       bo_transactions = map tx_toObject (blk_transactions b),
       bo_previousHash = blk_previousHash b, bo_nonce = blk_nonce b,
       bo_hash = blk_hash b, bo_merkleRoot = blk_merkleRoot b \<rparr>"

definition blk_fromObject :: "block_obj \<Rightarrow> block" where
  "blk_fromObject data =
     (let transactions = map tx_fromObject (bo_transactions data)
      in new_Block \<lparr> bd_index = bo_index data, bd_timestamp = bo_timestamp data,
                      bd_transactions = transactions,
                      bd_previousHash = bo_previousHash data,
                      bd_nonce = Some (bo_nonce data), bd_hash = Some (bo_hash data) \<rparr>)"

section \<open>Ledger (Blockchain)\<close>

record blockchain =
  chain :: "block list"
  pendingTransactions :: "transaction list"
  difficulty :: nat
  miningReward :: real
  maxTransactionsPerBlock :: nat

datatype error = TypeError

text \<open>
  The constructor argument \<open>Partial<BlockchainConfig>\<close> and \<open>new Blockchain(config)\<close>:
  \<open>config.difficulty || 2\<close> and its two neighbours replace a missing value and \<open>0\<close> by
  the default. The genesis block is created and mined at once, so the constructor
  returns only when that search does.
\<close>

record blockchain_config =
  cfg_difficulty :: "nat option"
  cfg_miningReward :: "real option"
  cfg_maxTransactionsPerBlock :: "nat option"

definition new_Blockchain :: "blockchain_config \<Rightarrow> int \<Rightarrow> int \<Rightarrow> blockchain option" where
  "new_Blockchain config now_tx now_blk =
     (let d = (case cfg_difficulty config of None \<Rightarrow> 2 | Some x \<Rightarrow> if x = 0 then 2 else x);
          r = (case cfg_miningReward config of None \<Rightarrow> 10 | Some x \<Rightarrow> if x = 0 then 10 else x);
          m = (case cfg_maxTransactionsPerBlock config of
                 None \<Rightarrow> 10 | Some x \<Rightarrow> if x = 0 then 10 else x)
      in case blk_mineBlock d (createGenesisBlock now_tx now_blk) of
           None \<Rightarrow> None
         | Some genesisBlock \<Rightarrow>
             Some \<lparr> chain = [genesisBlock], pendingTransactions = [], difficulty = d,
                    miningReward = r, maxTransactionsPerBlock = m \<rparr>)"

definition getLatestBlock :: "blockchain \<Rightarrow> block option" where
  "getLatestBlock bc =
     (if chain bc = [] then None else Some (chain bc ! (length (chain bc) - 1)))"

text \<open>The two nested \<open>for\<close> loops of \<open>getBalance\<close>, as folds over the running balance.\<close>

definition balanceStep :: "string \<Rightarrow> real \<Rightarrow> transaction \<Rightarrow> real" where
  "balanceStep address balance t =
     (let b1 = (if tx_to t = address then balance + tx_amount t else balance)
      in if tx_from t = address then b1 - (tx_amount t + tx_fee t) else b1)"

definition getBalance :: "blockchain \<Rightarrow> string \<Rightarrow> real" where
  "getBalance bc address =
     foldl (\<lambda>balance blk. foldl (balanceStep address) balance (blk_transactions blk))
           0 (chain bc)"

text \<open>
  \<open>addTransaction\<close> returns its boolean and the ledger it leaves behind.
  \<open>Array.prototype.find\<close> is \<^const>\<open>find\<close>; a found transaction object is truthy.
\<close>

definition addTransaction :: "blockchain \<Rightarrow> transaction \<Rightarrow> bool \<times> blockchain" where
  "addTransaction bc t =
     (if \<not> isValid t then (False, bc)
      else if tx_from t \<noteq> ''SYSTEM'' \<and> getBalance bc (tx_from t) < tx_amount t + tx_fee t
        then (False, bc)
      else if find (\<lambda>p. tx_hash p = tx_hash t) (pendingTransactions bc) \<noteq> None
        then (False, bc)
      else (True, bc\<lparr>pendingTransactions := pendingTransactions bc @ [t]\<rparr>))"

definition getTotalFees :: "transaction list \<Rightarrow> real" where
  "getTotalFees transactions = foldl (\<lambda>total t. total + tx_fee t) 0 transactions"

text \<open>
  \<open>Blockchain.mineBlock(minerAddress)\<close>. \<open>now_tx\<close> and \<open>now_blk\<close> are the two readings of
  the clock, for the coinbase transaction and for the block. On an empty chain
  \<open>getLatestBlock()\<close> is \<open>undefined\<close> and reading its \<open>hash\<close> throws before the search
  starts. The outer \<open>option\<close> is the search: \<open>None\<close> when it never ends.
\<close>

definition mineBlock ::
  "blockchain \<Rightarrow> string \<Rightarrow> int \<Rightarrow> int \<Rightarrow> (error + block \<times> blockchain) option" where
  "mineBlock bc minerAddress now_tx now_blk =
     (let transactionsToMine = take (maxTransactionsPerBlock bc) (pendingTransactions bc);
          coinbaseTransaction = createCoinbaseTransaction now_tx minerAddress
                                  (miningReward bc + getTotalFees transactionsToMine)
      in case getLatestBlock bc of
           None \<Rightarrow> Some (Inl TypeError)
         | Some latest \<Rightarrow>
             (case blk_mineBlock (difficulty bc)
                     (new_Block \<lparr> bd_index = length (chain bc), bd_timestamp = now_blk,
                                  bd_transactions = coinbaseTransaction # transactionsToMine,
                                  bd_previousHash = blk_hash latest,
                                  bd_nonce = None, bd_hash = None \<rparr>) of
                None \<Rightarrow> None
              | Some newBlock \<Rightarrow>
                  Some (Inr (newBlock,
                             bc\<lparr>chain := chain bc @ [newBlock],
                                pendingTransactions :=
                                  drop (maxTransactionsPerBlock bc) (pendingTransactions bc)\<rparr>))))"

text \<open>The \<open>for (i = 1; i < chain.length; i++)\<close> loop of \<open>isChainValid\<close>, from index \<open>i\<close>.\<close>

function isChainValid_from :: "blockchain \<Rightarrow> nat \<Rightarrow> bool" where
  "isChainValid_from bc i =
     (if i < length (chain bc) then
        (let currentBlock = chain bc ! i; previousBlock = chain bc ! (i - 1)
         in if \<not> isValidBlock currentBlock (Some previousBlock) (Some (difficulty bc))
              then False
            else if blk_previousHash currentBlock \<noteq> blk_hash previousBlock then False
            else isChainValid_from bc (i + 1))
      else True)"
  by pat_completeness auto
termination
  by (relation "measure (\<lambda>(bc, i). length (chain bc) - i)") auto

declare isChainValid_from.simps [simp del]

definition isChainValid :: "blockchain \<Rightarrow> bool" where
  "isChainValid bc = isChainValid_from bc 1"

definition adjustDifficulty :: "blockchain \<Rightarrow> blockchain" where
  "adjustDifficulty bc =
     (let targetBlockTime = (30000 :: real)
      in if length (chain bc) < 2 then bc
         else
           (let lastBlock = chain bc ! (length (chain bc) - 1);
                previousBlock = chain bc ! (length (chain bc) - 2);
                actualTime = blk_timestamp lastBlock - blk_timestamp previousBlock
            in if of_int actualTime < targetBlockTime / 2
                 then bc\<lparr>difficulty := difficulty bc + 1\<rparr>
               else if of_int actualTime > targetBlockTime * 2
                 then bc\<lparr>difficulty := max 1 (difficulty bc - 1)\<rparr>
               else bc))"

record chain_obj =
  co_chain :: "block_obj list"
  co_pendingTransactions :: "transaction_obj list"
  co_difficulty :: nat
  co_miningReward :: real
  co_maxTransactionsPerBlock :: nat

definition exportChain :: "blockchain \<Rightarrow> chain_obj" where
  "exportChain bc =
     \<lparr> co_chain = map blk_toObject (chain bc),
       co_pendingTransactions = map tx_toObject (pendingTransactions bc),
       co_difficulty = difficulty bc, co_miningReward = miningReward bc,
       co_maxTransactionsPerBlock = maxTransactionsPerBlock bc \<rparr>"

definition importChain :: "blockchain \<Rightarrow> chain_obj \<Rightarrow> blockchain" where
  "importChain bc data =
     bc\<lparr> chain := map blk_fromObject (co_chain data),
         pendingTransactions := map tx_fromObject (co_pendingTransactions data),
         difficulty := co_difficulty data,
         miningReward := co_miningReward data,
         maxTransactionsPerBlock := co_maxTransactionsPerBlock data \<rparr>"

section \<open>Notions used to state the properties\<close>




text \<open>
  The Merkle reduction as the specification words it: a level is paired off from the
  left, two neighbours are concatenated and hashed, and the last element of a level of
  odd length is paired with itself; levels are reduced until one digest remains.
\<close>

fun pairLevel :: "string list \<Rightarrow> string list" where
  "pairLevel [] = []"
| "pairLevel [x] = [sha256Sync (x @ x)]"
| "pairLevel (x # y # rest) = sha256Sync (x @ y) # pairLevel rest"

function reduceToOne :: "string list \<Rightarrow> string list" where
  "reduceToOne level = (if length level \<le> 1 then level else reduceToOne (pairLevel level))"
  by pat_completeness auto
termination
proof (relation "measure length")
  show "wf (measure length)" by simp
next
  fix level :: "string list"
  assume big: "\<not> length level \<le> 1"
  have "length (pairLevel xs) = (length xs + 1) div 2" for xs
    by (induction xs rule: pairLevel.induct) simp_all
  with big show "(pairLevel level, level) \<in> measure length" by simp
qed

declare reduceToOne.simps [simp del]

text \<open>
  The root over the given digests when every digest is hashed once more before the
  levels are paired (the single-element case is the same pass on one leaf).
\<close>

definition merkleRoot_leafHashed :: "string list \<Rightarrow> string" where
  "merkleRoot_leafHashed ds =
     (case ds of [] \<Rightarrow> sha256Sync ''''
      | [x] \<Rightarrow> sha256Sync x
      | _ \<Rightarrow> hd (reduceToOne (map sha256Sync ds)))"

text \<open>The root as the claim reads: the given digests themselves are paired.\<close>

definition merkleRoot_asClaimed :: "string list \<Rightarrow> string" where
  "merkleRoot_asClaimed ds =
     (case ds of [] \<Rightarrow> sha256Sync ''''
      | [x] \<Rightarrow> sha256Sync x
      | _ \<Rightarrow> hd (reduceToOne ds))"

text \<open>What a completed search that started at \<open>b\<close> leaves behind.\<close>

definition minedFrom :: "nat \<Rightarrow> block \<Rightarrow> block \<Rightarrow> bool" where
  "minedFrom d b b' \<longleftrightarrow>
     isValidProofOfWork (blk_hash b') d
     \<and> blk_index b' = blk_index b \<and> blk_timestamp b' = blk_timestamp b
     \<and> blk_transactions b' = blk_transactions b
     \<and> blk_previousHash b' = blk_previousHash b
     \<and> blk_merkleRoot b' = blk_merkleRoot b
     \<and> blk_nonce b \<le> blk_nonce b'
     \<and> (if blk_nonce b' = blk_nonce b then b' = b else blk_hash b' = blk_calculateHash b')"


text \<open>The block that \<open>Blockchain.mineBlock\<close> hands to the search.\<close>

definition candidateBlock :: "blockchain \<Rightarrow> string \<Rightarrow> int \<Rightarrow> int \<Rightarrow> block" where
  "candidateBlock bc minerAddress now_tx now_blk =
     new_Block \<lparr> bd_index = length (chain bc), bd_timestamp = now_blk,
                 bd_transactions =
                   createCoinbaseTransaction now_tx minerAddress
                     (miningReward bc +
                      getTotalFees (take (maxTransactionsPerBlock bc) (pendingTransactions bc)))
                   # take (maxTransactionsPerBlock bc) (pendingTransactions bc),
                 bd_previousHash = blk_hash (last (chain bc)),
                 bd_nonce = None, bd_hash = None \<rparr>"


section \<open>A worked run of the ledger\<close>

text \<open>
  The values of one concrete run: a ledger with difficulty 2, mining reward 10 and at
  most 5 transactions per block; its genesis block; three signed transfers out of the
  genesis address, each with fee 0.01; and the block mined from them for the miner
  \<open>M\<close>. The lemmas of the last section show that the operations produce these values.
\<close>

definition genesisTx :: transaction where
  "genesisTx =
     \<lparr> tx_from = ''SYSTEM'', tx_to = ''genesis'', tx_amount = 100, tx_fee = 0,
       tx_timestamp = 1700000000188, tx_signature = '''',
       tx_hash = ''5bb2bf935bb2bf935bb2bf935bb2bf935bb2bf935bb2bf935bb2bf935bb2bf93'' \<rparr>"

definition genesisD :: block where
  "genesisD =
     \<lparr> blk_index = 0, blk_timestamp = 1700000000188, blk_transactions = [genesisTx],
       blk_previousHash = ''0000000000000000000000000000000000000000000000000000000000000000'',
       blk_nonce = 0,
       blk_hash = ''00546b7d00546b7d00546b7d00546b7d00546b7d00546b7d00546b7d00546b7d'',
       blk_merkleRoot = ''45fdc7d845fdc7d845fdc7d845fdc7d845fdc7d845fdc7d845fdc7d845fdc7d8'' \<rparr>"

definition ledger0 :: blockchain where
  "ledger0 =
     \<lparr> chain = [genesisD], pendingTransactions = [], difficulty = 2, miningReward = 10,
       maxTransactionsPerBlock = 5 \<rparr>"

definition txA :: transaction where
  "txA =
     \<lparr> tx_from = ''genesis'', tx_to = ''alice'', tx_amount = 5, tx_fee = 1 / 100,
       tx_timestamp = 1700000001000,
       tx_signature = ''4082803340828033408280334082803340828033408280334082803340828033'',
       tx_hash = ''59b4453359b4453359b4453359b4453359b4453359b4453359b4453359b44533'' \<rparr>"

definition txB :: transaction where
  "txB =
     \<lparr> tx_from = ''genesis'', tx_to = ''bob'', tx_amount = 5, tx_fee = 1 / 100,
       tx_timestamp = 1700000002000,
       tx_signature = ''0d42b4f90d42b4f90d42b4f90d42b4f90d42b4f90d42b4f90d42b4f90d42b4f9'',
       tx_hash = ''7e3409217e3409217e3409217e3409217e3409217e3409217e3409217e340921'' \<rparr>"

definition txC :: transaction where
  "txC =
     \<lparr> tx_from = ''genesis'', tx_to = ''carol'', tx_amount = 5, tx_fee = 1 / 100,
       tx_timestamp = 1700000003000,
       tx_signature = ''4e831bbe4e831bbe4e831bbe4e831bbe4e831bbe4e831bbe4e831bbe4e831bbe'',
       tx_hash = ''5f902b7c5f902b7c5f902b7c5f902b7c5f902b7c5f902b7c5f902b7c5f902b7c'' \<rparr>"

definition ledgerD :: blockchain where
  "ledgerD = ledger0\<lparr>pendingTransactions := [txA, txB, txC]\<rparr>"

definition coinbaseD :: transaction where
  "coinbaseD =
     \<lparr> tx_from = ''SYSTEM'', tx_to = ''M'', tx_amount = 1003 / 100, tx_fee = 0,
       tx_timestamp = 1700000030064, tx_signature = '''',
       tx_hash = ''23d1354f23d1354f23d1354f23d1354f23d1354f23d1354f23d1354f23d1354f'' \<rparr>"

definition blockD :: block where
  "blockD =
     \<lparr> blk_index = 1, blk_timestamp = 1700000030064,
       blk_transactions = [coinbaseD, txA, txB, txC],
       blk_previousHash = ''00546b7d00546b7d00546b7d00546b7d00546b7d00546b7d00546b7d00546b7d'',
       blk_nonce = 10,
       blk_hash = ''001ff941001ff941001ff941001ff941001ff941001ff941001ff941001ff941'',
       blk_merkleRoot = ''127c9438127c9438127c9438127c9438127c9438127c9438127c9438127c9438'' \<rparr>"

definition ledgerD' :: blockchain where
  "ledgerD' = ledger0\<lparr>chain := [genesisD, blockD]\<rparr>"

text \<open>
  A block built from the single transfer \<open>txA\<close> on top of the genesis block, and the
  block the search at difficulty 2 turns it into.
\<close>

definition dataV :: block_data where
  "dataV =
     \<lparr> bd_index = 1, bd_timestamp = 1700000030113, bd_transactions = [txA],
       bd_previousHash = ''00546b7d00546b7d00546b7d00546b7d00546b7d00546b7d00546b7d00546b7d'',
       bd_nonce = None, bd_hash = None \<rparr>"

definition blockV :: block where
  "blockV =
     \<lparr> blk_index = 1, blk_timestamp = 1700000030113, blk_transactions = [txA],
       blk_previousHash = ''00546b7d00546b7d00546b7d00546b7d00546b7d00546b7d00546b7d00546b7d'',
       blk_nonce = 10,
       blk_hash = ''0031cbf20031cbf20031cbf20031cbf20031cbf20031cbf20031cbf20031cbf2'',
       blk_merkleRoot = ''3bdec9483bdec9483bdec9483bdec9483bdec9483bdec9483bdec9483bdec948'' \<rparr>"

text \<open>
  The same transactions read back by the constructor with an explicit hash of 64
  zeros, as \<open>Block.fromObject\<close> would pass it on from an edited export.
\<close>

definition forgedData :: block_data where
  "forgedData =
     \<lparr> bd_index = 1, bd_timestamp = 1700000030064, bd_transactions = [txA],
       bd_previousHash = ''00546b7d00546b7d00546b7d00546b7d00546b7d00546b7d00546b7d00546b7d'',
       bd_nonce = Some 7,
       bd_hash = Some ''0000000000000000000000000000000000000000000000000000000000000000'' \<rparr>"

definition forgedBlock :: block where
  "forgedBlock =
     \<lparr> blk_index = 1, blk_timestamp = 1700000030064, blk_transactions = [txA],
       blk_previousHash = ''00546b7d00546b7d00546b7d00546b7d00546b7d00546b7d00546b7d00546b7d'',
       blk_nonce = 7,
       blk_hash = ''0000000000000000000000000000000000000000000000000000000000000000'',
       blk_merkleRoot = ''3bdec9483bdec9483bdec9483bdec9483bdec9483bdec9483bdec9483bdec948'' \<rparr>"

section \<open>Transaction validity\<close>

text \<open>
  C7. \<open>isValid\<close> is false when the sender equals the recipient, or the amount is not
  positive, or the fee is negative, or the signature is empty, and true whenever none
  of the four holds; a sender \<open>SYSTEM\<close> changes nothing in these checks.
\<close>

theorem isValid_iff:
  "isValid t \<longleftrightarrow>
     \<not> (tx_from t = tx_to t \<or> tx_amount t \<le> 0 \<or> tx_fee t < 0 \<or> tx_signature t = '''')"
  by (simp add: isValid_def)

section \<open>Balances\<close>









section \<open>Admission to the pending pool\<close>



section \<open>Difficulty adjustment\<close>

lemma half_target: "(of_int d :: real) < 30000 / 2 \<longleftrightarrow> d < 15000"
proof -
  have "(of_int d :: real) < of_int 15000 \<longleftrightarrow> d < 15000" by (rule of_int_less_iff)
  then show ?thesis by simp
qed

lemma double_target: "(of_int d :: real) > 30000 * 2 \<longleftrightarrow> d > 60000"
proof -
  have "(of_int 60000 :: real) < of_int d \<longleftrightarrow> 60000 < d" by (rule of_int_less_iff)
  then show ?thesis by simp
qed

lemma nth_last_two:
  assumes "\<not> length xs < 2"
  shows "xs ! (length xs - 1) = last xs" and "xs ! (length xs - 2) = last (butlast xs)"
proof -
  from assms have ne: "xs \<noteq> []" by auto
  then show "xs ! (length xs - 1) = last xs" by (simp add: last_conv_nth)
  from assms have ne2: "butlast xs \<noteq> []" by (cases xs rule: rev_cases) auto
  have "last (butlast xs) = butlast xs ! (length (butlast xs) - 1)"
    using ne2 by (rule last_conv_nth)
  also have "\<dots> = xs ! (length xs - 2)"
    using assms by (simp add: nth_butlast numeral_2_eq_2)
  finally show "xs ! (length xs - 2) = last (butlast xs)" by simp
qed

text \<open>
  C9. With fewer than two blocks \<open>adjustDifficulty\<close> changes nothing. Otherwise, with
  \<open>delta\<close> the timestamp of the last block minus that of the one before it: the
  difficulty grows by 1 when \<open>delta < 15000\<close>, it shrinks by 1 but not below 1 when
  \<open>delta > 60000\<close>, and the ledger is unchanged in between.
\<close>

theorem adjustDifficulty_spec:
  "adjustDifficulty bc =
     (if length (chain bc) < 2 then bc
      else if blk_timestamp (last (chain bc)) - blk_timestamp (last (butlast (chain bc))) < 15000
        then bc\<lparr>difficulty := difficulty bc + 1\<rparr>
      else if blk_timestamp (last (chain bc)) - blk_timestamp (last (butlast (chain bc))) > 60000
        then bc\<lparr>difficulty := (if 2 \<le> difficulty bc then difficulty bc - 1 else 1)\<rparr>
      else bc)"
proof (cases "length (chain bc) < 2")
  case True
  then show ?thesis by (simp add: adjustDifficulty_def)
next
  case False
  have m: "max 1 (difficulty bc - 1) = (if 2 \<le> difficulty bc then difficulty bc - 1 else 1)"
    by (auto simp: max_def)
  show ?thesis
    unfolding adjustDifficulty_def Let_def nth_last_two[OF False] half_target double_target m
    using False by simp
qed

section \<open>Mining a block\<close>

lemma blk_calculateHash_hash_upd [simp]:
  "blk_calculateHash (b\<lparr>blk_hash := h\<rparr>) = blk_calculateHash b"
  by (simp add: blk_calculateHash_def)

lemma blk_calculateHash_transactions_upd [simp]:
  "blk_calculateHash (b\<lparr>blk_transactions := ts\<rparr>) = blk_calculateHash b"
  by (simp add: blk_calculateHash_def)

lemma blk_calculateMerkleRoot_cong:
  "map tx_hash (blk_transactions b) = map tx_hash (blk_transactions c) \<Longrightarrow>
   blk_calculateMerkleRoot b = blk_calculateMerkleRoot c"
proof -
  assume eq: "map tx_hash (blk_transactions b) = map tx_hash (blk_transactions c)"
  then have "length (blk_transactions b) = length (blk_transactions c)"
    by (rule map_eq_imp_length_eq)
  with eq show ?thesis by (simp add: blk_calculateMerkleRoot_def)
qed

lemma mineStep_fields:
  "blk_index (mineStep b) = blk_index b"
  "blk_timestamp (mineStep b) = blk_timestamp b"
  "blk_transactions (mineStep b) = blk_transactions b"
  "blk_previousHash (mineStep b) = blk_previousHash b"
  "blk_merkleRoot (mineStep b) = blk_merkleRoot b"
  "blk_nonce (mineStep b) = blk_nonce b + 1"
  "blk_hash (mineStep b) = blk_calculateHash (mineStep b)"
  by (simp_all add: mineStep_def Let_def)

lemma blk_mineBlock_minedFrom:
  assumes run: "blk_mineBlock d0 b0 = Some b0'"
  shows "minedFrom d0 b0 b0'"
proof (rule blk_mineBlock.raw_induct[OF _ run])
  fix mine :: "nat \<Rightarrow> block \<Rightarrow> block option" and d b b'
  assume IH: "\<And>x1 x2 y. mine x1 x2 = Some y \<Longrightarrow> minedFrom x1 x2 y"
    and eq: "(if substring 0 d (blk_hash b) \<noteq> replicate d CHR ''0''
              then mine d (mineStep b) else Some b) = Some b'"
  show "minedFrom d b b'"
  proof (cases "substring 0 d (blk_hash b) \<noteq> replicate d CHR ''0''")
    case True
    with eq have "mine d (mineStep b) = Some b'" by simp
    then have "minedFrom d (mineStep b) b'" by (rule IH)
    then show ?thesis
      by (auto simp: minedFrom_def mineStep_fields split: if_splits)
  next
    case False
    with eq have "b' = b" by simp
    with False show ?thesis
      by (simp add: minedFrom_def isValidProofOfWork_def)
  qed
qed





lemma new_Block_fields:
  "blk_index (new_Block data) = bd_index data"
  "blk_timestamp (new_Block data) = bd_timestamp data"
  "blk_transactions (new_Block data) = bd_transactions data"
  "blk_previousHash (new_Block data) = bd_previousHash data"
  "blk_nonce (new_Block data) = (case bd_nonce data of None \<Rightarrow> 0 | Some n \<Rightarrow> n)"
  "blk_merkleRoot (new_Block data) = blk_calculateMerkleRoot (new_Block data)"
  by (simp_all add: new_Block_def Let_def blk_calculateMerkleRoot_def)

lemma new_Block_hash:
  "blk_hash (new_Block data) =
     (case bd_hash data of None \<Rightarrow> blk_calculateHash (new_Block data)
      | Some h \<Rightarrow> if h = '''' then blk_calculateHash (new_Block data) else h)"
  by (simp add: new_Block_def Let_def blk_calculateHash_def split: option.splits)

lemma minedFrom_consistent:
  assumes "minedFrom d b b'" and "blk_hash b = blk_calculateHash b"
  shows "blk_hash b' = blk_calculateHash b'"
  using assms by (auto simp: minedFrom_def split: if_splits)

lemma minedFrom_merkle:
  assumes "minedFrom d b b'" and "blk_merkleRoot b = blk_calculateMerkleRoot b"
  shows "blk_merkleRoot b' = blk_calculateMerkleRoot b'"
proof -
  from assms(1) have "blk_transactions b' = blk_transactions b" "blk_merkleRoot b' = blk_merkleRoot b"
    by (simp_all add: minedFrom_def)
  with assms(2) show ?thesis
    by (simp add: blk_calculateMerkleRoot_def)
qed

lemma validateTransactions_all:
  "validateTransactions b = list_all isValid (blk_transactions b)"
proof -
  have "validateTransactions_loop ts = list_all isValid ts" for ts
    by (induction ts) simp_all
  then show ?thesis by (simp add: validateTransactions_def)
qed

lemma isValidBlock_plain:
  "isValidBlock b None None \<longleftrightarrow>
     blk_hash b = blk_calculateHash b \<and> blk_merkleRoot b = blk_calculateMerkleRoot b
     \<and> list_all isValid (blk_transactions b)"
  by (simp add: isValidBlock_def validateTransactions_all)

text \<open>
  C3 (amended). When \<open>mineBlock(d)\<close> returns, the stored hash starts with \<open>d\<close>
  characters \<open>0\<close>, that is, it satisfies \<open>isValidProofOfWork\<close>; and it equals the
  recomputed hash provided it did so when the search started or the loop ran at least
  once (the nonce moved).
\<close>

theorem mineBlock_proof_of_work:
  "blk_mineBlock d b = Some b' \<Longrightarrow>
     isValidProofOfWork (blk_hash b') d
     \<and> take d (blk_hash b') = replicate d CHR ''0''
     \<and> ((blk_hash b = blk_calculateHash b \<or> blk_nonce b' \<noteq> blk_nonce b)
          \<longrightarrow> blk_hash b' = blk_calculateHash b')"
proof -
  assume "blk_mineBlock d b = Some b'"
  then have m: "minedFrom d b b'" by (rule blk_mineBlock_minedFrom)
  then have pow: "isValidProofOfWork (blk_hash b') d" by (simp add: minedFrom_def)
  then have zeros: "take d (blk_hash b') = replicate d CHR ''0''"
    by (simp add: isValidProofOfWork_def substring_def)
  from m have "blk_hash b' = blk_calculateHash b'"
    if "blk_hash b = blk_calculateHash b \<or> blk_nonce b' \<noteq> blk_nonce b"
    using that by (auto simp: minedFrom_def split: if_splits)
  with pow zeros show ?thesis by blast
qed

text \<open>
  C1 (amended). For a block built by the constructor without an explicit hash, once
  \<open>mineBlock(d)\<close> has returned: the stored hash and the Merkle root pass their checks
  and the hash satisfies the difficulty; \<open>isValidBlock()\<close> is true exactly when every
  transaction of the block is valid; after the nonce or the timestamp is changed,
  \<open>isValidBlock()\<close> is true exactly when the recomputed hash still equals the stored
  one and every transaction is valid; and after the amount of one transaction is
  changed, \<open>isValidBlock()\<close> is true exactly when every transaction, the changed one
  included, is valid (the stored transaction hash is not recomputed).
\<close>

theorem mined_block_validity:
  assumes built: "bd_hash data = None" "b = new_Block data"
    and mined: "blk_mineBlock d b = Some b'"
  shows "blk_hash b' = blk_calculateHash b'
     \<and> blk_merkleRoot b' = blk_calculateMerkleRoot b'
     \<and> isValidProofOfWork (blk_hash b') d
     \<and> (isValidBlock b' None None \<longleftrightarrow> list_all isValid (bd_transactions data))
     \<and> (isValidBlock (b'\<lparr>blk_nonce := n\<rparr>) None None \<longleftrightarrow>
            blk_calculateHash (b'\<lparr>blk_nonce := n\<rparr>) = blk_hash b'
            \<and> list_all isValid (bd_transactions data))
     \<and> (isValidBlock (b'\<lparr>blk_timestamp := ts\<rparr>) None None \<longleftrightarrow>
            blk_calculateHash (b'\<lparr>blk_timestamp := ts\<rparr>) = blk_hash b'
            \<and> list_all isValid (bd_transactions data))
     \<and> (k < length (bd_transactions data) \<longrightarrow>
          (isValidBlock
             (b'\<lparr>blk_transactions :=
                   (bd_transactions data)[k := (bd_transactions data ! k)\<lparr>tx_amount := a\<rparr>]\<rparr>)
             None None \<longleftrightarrow>
           list_all isValid
             ((bd_transactions data)[k := (bd_transactions data ! k)\<lparr>tx_amount := a\<rparr>])))"
proof -
  from mined have m: "minedFrom d b b'" by (rule blk_mineBlock_minedFrom)
  from built have h0: "blk_hash b = blk_calculateHash b"
    by (simp add: new_Block_hash)
  from built have r0: "blk_merkleRoot b = blk_calculateMerkleRoot b"
    by (simp add: new_Block_fields)
  have h: "blk_hash b' = blk_calculateHash b'"
    using m h0 by (rule minedFrom_consistent)
  have r: "blk_merkleRoot b' = blk_calculateMerkleRoot b'"
    using m r0 by (rule minedFrom_merkle)
  have txs: "blk_transactions b' = bd_transactions data"
    using m built by (simp add: minedFrom_def new_Block_fields)
  have pow: "isValidProofOfWork (blk_hash b') d"
    using m by (simp add: minedFrom_def)
  have v: "isValidBlock b' None None \<longleftrightarrow> list_all isValid (bd_transactions data)"
    by (simp add: isValidBlock_plain h[symmetric] r[symmetric] txs)
  have rn: "blk_calculateMerkleRoot (b'\<lparr>blk_nonce := n\<rparr>) = blk_calculateMerkleRoot b'"
    by (simp add: blk_calculateMerkleRoot_def)
  have vn: "isValidBlock (b'\<lparr>blk_nonce := n\<rparr>) None None \<longleftrightarrow>
            blk_calculateHash (b'\<lparr>blk_nonce := n\<rparr>) = blk_hash b'
            \<and> list_all isValid (bd_transactions data)"
    using r by (auto simp: isValidBlock_plain rn txs)
  have rt: "blk_calculateMerkleRoot (b'\<lparr>blk_timestamp := ts\<rparr>) = blk_calculateMerkleRoot b'"
    by (simp add: blk_calculateMerkleRoot_def)
  have vt: "isValidBlock (b'\<lparr>blk_timestamp := ts\<rparr>) None None \<longleftrightarrow>
            blk_calculateHash (b'\<lparr>blk_timestamp := ts\<rparr>) = blk_hash b'
            \<and> list_all isValid (bd_transactions data)"
    using r by (auto simp: isValidBlock_plain rt txs)
  have va: "isValidBlock
             (b'\<lparr>blk_transactions :=
                   (bd_transactions data)[k := (bd_transactions data ! k)\<lparr>tx_amount := a\<rparr>]\<rparr>)
             None None \<longleftrightarrow>
           list_all isValid
             ((bd_transactions data)[k := (bd_transactions data ! k)\<lparr>tx_amount := a\<rparr>])"
    if "k < length (bd_transactions data)"
  proof -
    let ?ts' = "(bd_transactions data)[k := (bd_transactions data ! k)\<lparr>tx_amount := a\<rparr>]"
    have "map tx_hash ?ts' = map tx_hash (bd_transactions data)"
      using that by (simp add: map_update list_update_same_conv)
    then have "blk_calculateMerkleRoot (b'\<lparr>blk_transactions := ?ts'\<rparr>) = blk_calculateMerkleRoot b'"
      by (intro blk_calculateMerkleRoot_cong) (simp add: txs)
    with h r show ?thesis
      by (simp add: isValidBlock_plain)
  qed
  from h r pow v vn vt va show ?thesis by blast
qed


lemma new_Transaction_fields:
  "tx_from (new_Transaction data) = td_from data"
  "tx_to (new_Transaction data) = td_to data"
  "tx_amount (new_Transaction data) = td_amount data"
  "tx_fee (new_Transaction data) = td_fee data"
  "tx_timestamp (new_Transaction data) = td_timestamp data"
  "tx_signature (new_Transaction data) = (case td_signature data of None \<Rightarrow> '''' | Some s \<Rightarrow> s)"
  "tx_hash (new_Transaction data) = tx_calculateHash (new_Transaction data)"
  by (simp_all add: new_Transaction_def Let_def tx_calculateHash_def)

lemma coinbase_fields:
  "tx_from (createCoinbaseTransaction now to amount) = ''SYSTEM''"
  "tx_to (createCoinbaseTransaction now to amount) = to"
  "tx_amount (createCoinbaseTransaction now to amount) = amount"
  "tx_fee (createCoinbaseTransaction now to amount) = 0"
  "tx_timestamp (createCoinbaseTransaction now to amount) = now"
  "tx_signature (createCoinbaseTransaction now to amount) = ''''"
  by (simp_all add: createCoinbaseTransaction_def new_Transaction_fields)

lemma coinbase_invalid: "\<not> isValid (createCoinbaseTransaction now to amount)"
  by (simp add: isValid_def coinbase_fields)

section \<open>Mining on the ledger\<close>


lemma getLatestBlock_last:
  "getLatestBlock bc = (if chain bc = [] then None else Some (last (chain bc)))"
  by (simp add: getLatestBlock_def last_conv_nth)

lemma mineBlock_unfold:
  "chain bc \<noteq> [] \<Longrightarrow>
   mineBlock bc minerAddress now_tx now_blk =
     (case blk_mineBlock (difficulty bc) (candidateBlock bc minerAddress now_tx now_blk) of
        None \<Rightarrow> None
      | Some newBlock \<Rightarrow>
          Some (Inr (newBlock,
                     bc\<lparr>chain := chain bc @ [newBlock],
                        pendingTransactions :=
                          drop (maxTransactionsPerBlock bc) (pendingTransactions bc)\<rparr>)))"
  by (simp add: mineBlock_def Let_def getLatestBlock_last candidateBlock_def)

lemma mineBlock_empty_chain:
  "chain bc = [] \<Longrightarrow> mineBlock bc minerAddress now_tx now_blk = Some (Inl TypeError)"
  by (simp add: mineBlock_def Let_def getLatestBlock_def)

lemma mineBlock_Inr:
  assumes "mineBlock bc minerAddress now_tx now_blk = Some (Inr (newBlock, bc'))"
  shows "chain bc \<noteq> []"
    and "blk_mineBlock (difficulty bc) (candidateBlock bc minerAddress now_tx now_blk) = Some newBlock"
    and "bc' = bc\<lparr>chain := chain bc @ [newBlock],
                   pendingTransactions := drop (maxTransactionsPerBlock bc) (pendingTransactions bc)\<rparr>"
proof -
  show ne: "chain bc \<noteq> []"
    using assms by (auto simp: mineBlock_empty_chain)
  from assms show "blk_mineBlock (difficulty bc) (candidateBlock bc minerAddress now_tx now_blk) = Some newBlock"
    by (simp add: mineBlock_unfold[OF ne] split: option.splits)
  from assms show "bc' = bc\<lparr>chain := chain bc @ [newBlock],
                   pendingTransactions := drop (maxTransactionsPerBlock bc) (pendingTransactions bc)\<rparr>"
    by (simp add: mineBlock_unfold[OF ne] split: option.splits)
qed


lemma isChainValid_from_bad:
  assumes "k < length (chain bc)"
    and "\<not> isValidBlock (chain bc ! k) (Some (chain bc ! (k - 1))) (Some (difficulty bc))"
  shows "i \<le> k \<Longrightarrow> \<not> isChainValid_from bc i"
proof (induction "k - i" arbitrary: i)
  case 0
  then have "i = k" by simp
  with assms show ?case
    by (simp add: isChainValid_from.simps[of bc k] Let_def)
next
  case (Suc n)
  then have lt: "i < k" and nxt: "n = k - (i + 1)" "i + 1 \<le> k" by simp_all
  from Suc(1)[OF nxt] have "\<not> isChainValid_from bc (i + 1)" .
  with lt assms(1) show ?case
    by (simp add: isChainValid_from.simps[of bc i] Let_def)
qed

lemma isValidBlock_invalid_tx:
  "t \<in> set (blk_transactions b) \<Longrightarrow> \<not> isValid t \<Longrightarrow> \<not> isValidBlock b p d"
  by (auto simp: isValidBlock_def validateTransactions_all list_all_iff)

text \<open>
  C10. Once \<open>mineBlock\<close> has returned, the chain has at least two blocks and
  \<open>isChainValid()\<close> is false: the first transaction of the mined block is the coinbase
  transaction, whose signature is empty, so \<open>isValid\<close> rejects it and \<open>isValidBlock\<close>
  fails on that block whatever previous block and difficulty it is given. This stays
  so when later blocks are appended, the pool changes or the difficulty is adjusted.
\<close>

theorem mined_chain_not_valid:
  assumes "mineBlock bc minerAddress now_tx now_blk = Some (Inr (newBlock, bc'))"
  shows "2 \<le> length (chain bc')
     \<and> tx_from (hd (blk_transactions newBlock)) = ''SYSTEM''
     \<and> tx_signature (hd (blk_transactions newBlock)) = ''''
     \<and> \<not> isValid (hd (blk_transactions newBlock))
     \<and> \<not> isValidBlock newBlock previousBlock d
     \<and> \<not> isChainValid bc'
     \<and> \<not> isChainValid (bc'\<lparr>chain := chain bc' @ later, pendingTransactions := pool,
                              difficulty := d'\<rparr>)"
proof -
  note r = mineBlock_Inr[OF assms]
  from r(2) have m: "minedFrom (difficulty bc) (candidateBlock bc minerAddress now_tx now_blk) newBlock"
    by (rule blk_mineBlock_minedFrom)
  have txs: "blk_transactions newBlock =
      createCoinbaseTransaction now_tx minerAddress
        (miningReward bc + getTotalFees (take (maxTransactionsPerBlock bc) (pendingTransactions bc)))
      # take (maxTransactionsPerBlock bc) (pendingTransactions bc)"
    using m by (simp add: minedFrom_def candidateBlock_def new_Block_fields)
  have len: "2 \<le> length (chain bc')"
    using r(1) by (cases "chain bc") (simp_all add: r(3))
  have bad: "\<not> isValidBlock newBlock p dd" for p dd
    by (rule isValidBlock_invalid_tx[where t = "hd (blk_transactions newBlock)"])
       (simp_all add: txs coinbase_invalid)
  have at: "(chain bc' @ more) ! length (chain bc) = newBlock" for more
    by (simp add: r(3) nth_append)
  have pos: "1 \<le> length (chain bc)"
    using r(1) by (cases "chain bc") simp_all
  have gen: "\<not> isChainValid (bc'\<lparr>chain := chain bc' @ more, pendingTransactions := pl,
                              difficulty := df\<rparr>)" for more pl df
  proof -
    let ?L = "bc'\<lparr>chain := chain bc' @ more, pendingTransactions := pl, difficulty := df\<rparr>"
    have k: "length (chain bc) < length (chain ?L)"
      by (simp add: r(3))
    have b: "\<not> isValidBlock (chain ?L ! length (chain bc))
                 (Some (chain ?L ! (length (chain bc) - 1))) (Some (difficulty ?L))"
      by (simp add: at bad)
    from isChainValid_from_bad[OF k b pos] show ?thesis
      by (simp add: isChainValid_def)
  qed
  have "\<not> isChainValid bc'"
    using gen[where more = "[]" and pl = "pendingTransactions bc'" and df = "difficulty bc'"] by simp
  with len gen bad show ?thesis
    by (simp add: txs coinbase_fields coinbase_invalid)
qed


section \<open>Export and import\<close>

lemma tx_roundtrip: "tx_fromObject (tx_toObject t) = t"
  by (simp add: tx_fromObject_def tx_toObject_def new_Transaction_def Let_def)

lemma sha256Sync_nonempty: "sha256Sync s \<noteq> ''''"
proof -
  have r: "toStringRadix r n \<noteq> []" for r n
    by (subst toStringRadix.simps) simp
  have p: "padStart 8 CHR ''0'' x \<noteq> []" if "x \<noteq> []" for x
    using that by (simp add: padStart_def)
  have "repeat 8 x = x @ repeat 7 x" for x :: string
    by (simp add: repeat_def numeral_eq_Suc)
  then have "substring 0 64 (repeat 8 x) \<noteq> []" if "x \<noteq> []" for x
    using that by (simp add: substring_def)
  with p r show ?thesis by (simp add: sha256Sync_def)
qed

lemma blk_calculateHash_nonempty: "blk_calculateHash b \<noteq> ''''"
  by (simp add: blk_calculateHash_def sha256Sync_nonempty)

lemma new_Block_hash_nonempty: "blk_hash (new_Block data) \<noteq> ''''"
  by (simp add: new_Block_hash blk_calculateHash_nonempty split: option.splits)

lemma blk_mineBlock_hash_nonempty:
  assumes "blk_mineBlock d b = Some b'" and "blk_hash b \<noteq> ''''"
  shows "blk_hash b' \<noteq> ''''"
proof -
  from assms(1) have "minedFrom d b b'" by (rule blk_mineBlock_minedFrom)
  then show ?thesis
    using assms(2) blk_calculateHash_nonempty[of b']
    by (auto simp: minedFrom_def split: if_splits)
qed

lemma blk_roundtrip:
  "blk_hash b \<noteq> '''' \<Longrightarrow>
   blk_fromObject (blk_toObject b) = b\<lparr>blk_merkleRoot := blk_calculateMerkleRoot b\<rparr>"
  by (simp add: blk_fromObject_def blk_toObject_def new_Block_def Let_def o_def tx_roundtrip
      blk_calculateMerkleRoot_def)

lemma blk_roundtrip_hash:
  "blk_hash b \<noteq> '''' \<Longrightarrow> blk_hash (blk_fromObject (blk_toObject b)) = blk_hash b"
  by (simp add: blk_roundtrip)

text \<open>
  C8. Exporting a ledger and importing the result into any ledger gives a ledger with
  the same block hash at every position of the chain, the same pending pool, and the
  same difficulty, mining reward and maximum number of transactions per block. The
  ledger's blocks have a non-empty stored hash, as every block has that the constructor
  built (\<open>new_Block_hash_nonempty\<close>) and the search returned
  (\<open>blk_mineBlock_hash_nonempty\<close>).
\<close>

theorem export_import_roundtrip:
  assumes "\<forall>b \<in> set (chain bc). blk_hash b \<noteq> ''''"
  shows "map blk_hash (chain (importChain target (exportChain bc))) = map blk_hash (chain bc)
     \<and> pendingTransactions (importChain target (exportChain bc)) = pendingTransactions bc
     \<and> difficulty (importChain target (exportChain bc)) = difficulty bc
     \<and> miningReward (importChain target (exportChain bc)) = miningReward bc
     \<and> maxTransactionsPerBlock (importChain target (exportChain bc)) = maxTransactionsPerBlock bc"
proof -
  have "map blk_hash (map blk_fromObject (map blk_toObject bs)) = map blk_hash bs"
    if "\<forall>b \<in> set bs. blk_hash b \<noteq> ''''" for bs
    using that by (induction bs) (simp_all add: blk_roundtrip_hash)
  with assms have "map blk_hash (map blk_fromObject (map blk_toObject (chain bc))) = map blk_hash (chain bc)"
    by blast
  moreover have "map tx_fromObject (map tx_toObject ts) = ts" for ts
    by (induction ts) (simp_all add: tx_roundtrip)
  ultimately show ?thesis
    by (simp add: importChain_def exportChain_def)
qed

section \<open>Merkle root\<close>

lemma nextLevel_Nil: "nextLevel [] = []"
  by (simp add: nextLevel_def)
lemma nextLevel_single: "nextLevel [x] = [sha256Sync (x @ x)]"
  by (simp add: nextLevel_def)
lemma nextLevel_pair: "nextLevel (x # y # rest) = sha256Sync (x @ y) # nextLevel rest"
proof -
  have up: "[0 ..< (length (x # y # rest) + 1) div 2] = 0 # map Suc [0 ..< (length rest + 1) div 2]"
    by (simp add: upt_conv_Cons map_Suc_upt)
  show ?thesis
    unfolding nextLevel_def up by (simp add: Let_def)
qed
lemma nextLevel_pairLevel: "nextLevel xs = pairLevel xs"
  by (induction xs rule: pairLevel.induct) (simp_all add: nextLevel_Nil nextLevel_single nextLevel_pair)
lemma merkleLevels_reduceToOne: "merkleLevels xs = reduceToOne xs"
proof (induction xs rule: reduceToOne.induct)
  case (1 level)
  show ?case
  proof (cases "length level \<le> 1")
    case True
    then show ?thesis by (simp add: merkleLevels.simps[of level] reduceToOne.simps[of level])
  next
    case False
    then have "merkleLevels level = merkleLevels (nextLevel level)"
      by (simp add: merkleLevels.simps[of level])
    also have "\<dots> = reduceToOne (pairLevel level)"
      using 1[OF False] by (simp add: nextLevel_pairLevel)
    also have "\<dots> = reduceToOne level"
      using False by (simp add: reduceToOne.simps[of level])
    finally show ?thesis .
  qed
qed
lemma length_pairLevel: "length (pairLevel xs) = (length xs + 1) div 2"
  by (induction xs rule: pairLevel.induct) simp_all
lemma reduceToOne_single: "xs \<noteq> [] \<Longrightarrow> length (reduceToOne xs) = 1"
proof (induction xs rule: reduceToOne.induct)
  case (1 level)
  show ?case
  proof (cases "length level \<le> 1")
    case True
    with 1(2) have "length level = 1" by (cases level) auto
    with True show ?thesis by (simp add: reduceToOne.simps[of level])
  next
    case False
    then have "pairLevel level \<noteq> []"
      using length_pairLevel[of level] by (cases "pairLevel level") auto
    from 1(1)[OF False this] False show ?thesis
      by (simp add: reduceToOne.simps[of level])
  qed
qed

lemma merkleLevels_Nil: "merkleLevels [] = []"
  by (simp add: merkleLevels.simps)
lemma merkleLevels_single: "merkleLevels [x] = [x]"
  by (simp add: merkleLevels.simps)
lemma merkleLevels_pair: "merkleLevels (x # y # rest) = merkleLevels (nextLevel (x # y # rest))"
  by (simp add: merkleLevels.simps[of "x # y # rest"])

lemma calculateMerkleRoot_eq: "calculateMerkleRoot ds = merkleRoot_leafHashed ds"
proof (cases ds)
  case Nil
  then show ?thesis by (simp add: calculateMerkleRoot_def merkleRoot_leafHashed_def)
next
  case (Cons d rest)
  note c1 = Cons
  show ?thesis
  proof (cases rest)
    case Nil
    with c1 show ?thesis by (simp add: calculateMerkleRoot_def merkleRoot_leafHashed_def)
  next
    case (Cons e rest')
    have "reduceToOne (map sha256Sync ds) \<noteq> []"
      using reduceToOne_single[of "map sha256Sync ds"] c1 by auto
    then have "reduceToOne (map sha256Sync ds) ! 0 = hd (reduceToOne (map sha256Sync ds))"
      by (simp add: hd_conv_nth)
    with c1 Cons show ?thesis
      by (simp add: calculateMerkleRoot_def merkleRoot_leafHashed_def merkleLevels_reduceToOne)
  qed
qed

lemma blk_calculateMerkleRoot_eq:
  "blk_calculateMerkleRoot blk = merkleRoot_leafHashed (map tx_hash (blk_transactions blk))"
proof (cases "blk_transactions blk")
  case Nil
  then show ?thesis by (simp add: blk_calculateMerkleRoot_def merkleRoot_leafHashed_def)
next
  case (Cons t ts)
  then show ?thesis by (simp add: blk_calculateMerkleRoot_def calculateMerkleRoot_eq)
qed

text \<open>
  C4 (amended). The Merkle root of the empty sequence is the digest of the empty
  string; of a single digest \<open>x\<close> it is \<open>digest(x)\<close>; and of more than one digest it
  is what remains when every given digest is first hashed once more and the levels are
  then paired, concatenated and hashed, the last element of an odd level with itself,
  until one digest is left: for two digests \<open>digest(digest(a) ++ digest(b))\<close>.
\<close>

theorem calculateMerkleRoot_leafHashed:
  "calculateMerkleRoot ds = merkleRoot_leafHashed ds
   \<and> blk_calculateMerkleRoot blk = merkleRoot_leafHashed (map tx_hash (blk_transactions blk))
   \<and> calculateMerkleRoot [] = sha256Sync []
   \<and> calculateMerkleRoot [x] = sha256Sync x
   \<and> calculateMerkleRoot [a, b] = sha256Sync (sha256Sync a @ sha256Sync b)
   \<and> calculateMerkleRoot [a, b, c] =
       sha256Sync (sha256Sync (sha256Sync a @ sha256Sync b) @
                   sha256Sync (sha256Sync c @ sha256Sync c))
   \<and> (ds \<noteq> [] \<longrightarrow> length (reduceToOne (map sha256Sync ds)) = 1)"
proof -
  have "calculateMerkleRoot [a, b] = sha256Sync (sha256Sync a @ sha256Sync b)"
    by (simp add: calculateMerkleRoot_def merkleLevels_pair merkleLevels_single nextLevel_pair
        nextLevel_Nil)
  moreover have "calculateMerkleRoot [a, b, c] =
       sha256Sync (sha256Sync (sha256Sync a @ sha256Sync b) @
                   sha256Sync (sha256Sync c @ sha256Sync c))"
    by (simp add: calculateMerkleRoot_def merkleLevels_pair merkleLevels_single nextLevel_pair
        nextLevel_single nextLevel_Nil)
  moreover have "ds \<noteq> [] \<longrightarrow> length (reduceToOne (map sha256Sync ds)) = 1"
    by (simp add: reduceToOne_single)
  ultimately show ?thesis
    using calculateMerkleRoot_eq [of ds] blk_calculateMerkleRoot_eq [of blk]
    by (simp add: calculateMerkleRoot_def)
qed


section \<open>Rules for evaluating the model on concrete values\<close>

lemma replicate_num: "replicate (numeral k) x = x # replicate (pred_numeral k) x"
  by (simp add: numeral_eq_Suc)

lemma fracDigits_num:
  "fracDigits (numeral k) f =
     (if f = 0 then []
      else digit_char (nat \<lfloor>10 * f\<rfloor>) # fracDigits (pred_numeral k) (10 * f - of_int \<lfloor>10 * f\<rfloor>))"
  by (simp add: numeral_eq_Suc)

lemma toStringRadix_small: "n < r \<Longrightarrow> toStringRadix r n = [digit_char n]"
  by (simp add: toStringRadix.simps[of r n])

lemma toStringRadix_big:
  "2 \<le> r \<Longrightarrow> r \<le> n \<Longrightarrow>
   toStringRadix r n = toStringRadix r (n div r) @ [digit_char (n mod r)]"
  by (simp add: toStringRadix.simps[of r n])

lemma numberToString_eval:
  "numberToString q =
     (if q < 0 then ''-'' else '''') @ natToString (nat \<lfloor>\<bar>q\<bar>\<rfloor>) @
     (if \<bar>q\<bar> - of_int \<lfloor>\<bar>q\<bar>\<rfloor> = 0 then ''''
      else CHR ''.'' # fracDigits 20 (\<bar>q\<bar> - of_int \<lfloor>\<bar>q\<bar>\<rfloor>))"
  by (simp add: numberToString_def Let_def)

lemma new_Transaction_eval:
  "new_Transaction data =
     \<lparr> tx_from = td_from data, tx_to = td_to data, tx_amount = td_amount data,
       tx_fee = td_fee data, tx_timestamp = td_timestamp data,
       tx_signature = (case td_signature data of None \<Rightarrow> '''' | Some s \<Rightarrow> s),
       tx_hash = sha256Sync (td_from data @ td_to data @ numberToString (td_amount data) @
                             numberToString (td_fee data) @ intToString (td_timestamp data)) \<rparr>"
  by (simp add: new_Transaction_def Let_def tx_calculateHash_def)

lemma signTransaction_eval:
  "signTransaction privateKey t =
     t\<lparr> tx_signature :=
          sha256Sync (tx_from t @ tx_to t @ numberToString (tx_amount t) @
                      numberToString (tx_fee t) @ intToString (tx_timestamp t) @ privateKey),
        tx_hash :=
          sha256Sync (tx_from t @ tx_to t @ numberToString (tx_amount t) @
                      numberToString (tx_fee t) @ intToString (tx_timestamp t)) \<rparr>"
  by (simp add: signTransaction_def Let_def tx_calculateHash_def)

lemma mineStep_eval:
  "mineStep b =
     b\<lparr> blk_nonce := blk_nonce b + 1,
        blk_hash := sha256Sync (natToString (blk_index b) @ blk_previousHash b @
                                intToString (blk_timestamp b) @ blk_merkleRoot b @
                                natToString (blk_nonce b + 1)) \<rparr>"
  by (simp add: mineStep_def Let_def blk_calculateHash_def)

lemma blk_mineBlock_found:
  "substring 0 d (blk_hash b) = replicate d CHR ''0'' \<Longrightarrow> blk_mineBlock d b = Some b"
  by (simp add: blk_mineBlock.simps[of d b])

lemma blk_mineBlock_next:
  "substring 0 d (blk_hash b) \<noteq> replicate d CHR ''0'' \<Longrightarrow>
   blk_mineBlock d b = blk_mineBlock d (mineStep b)"
  by (simp add: blk_mineBlock.simps[of d b])

lemmas hash_eval =
  sha256Sync_def hash_step_def substring_def repeat_def padStart_def digit_char_def
  replicate_num natToString_def intToString_def numberToString_eval fracDigits_num
  toStringRadix_small toStringRadix_big

lemmas merkle_eval =
  blk_calculateMerkleRoot_def calculateMerkleRoot_def merkleLevels_pair merkleLevels_single
  nextLevel_pair nextLevel_single nextLevel_Nil

lemma new_Block_eval:
  "new_Block data =
     \<lparr> blk_index = bd_index data, blk_timestamp = bd_timestamp data,
       blk_transactions = bd_transactions data, blk_previousHash = bd_previousHash data,
       blk_nonce = (case bd_nonce data of None \<Rightarrow> 0 | Some n \<Rightarrow> n),
       blk_hash =
         (if bd_hash data = None \<or> bd_hash data = Some ''''
          then sha256Sync (natToString (bd_index data) @ bd_previousHash data @
                           intToString (bd_timestamp data) @
                           (if bd_transactions data = [] then sha256Sync ''''
                            else calculateMerkleRoot (map tx_hash (bd_transactions data))) @
                           natToString (case bd_nonce data of None \<Rightarrow> 0 | Some n \<Rightarrow> n))
          else the (bd_hash data)),
       blk_merkleRoot =
         (if bd_transactions data = [] then sha256Sync ''''
          else calculateMerkleRoot (map tx_hash (bd_transactions data))) \<rparr>"
  by (cases "bd_hash data")
     (simp_all add: new_Block_def Let_def blk_calculateHash_def blk_calculateMerkleRoot_def)

lemma createGenesisBlock_eval:
  "createGenesisBlock now_tx now_blk =
     new_Block \<lparr> bd_index = 0, bd_timestamp = now_blk,
                 bd_transactions = [createCoinbaseTransaction now_tx ''genesis'' 100],
                 bd_previousHash = repeat 64 ''0'', bd_nonce = None, bd_hash = None \<rparr>"
  by (simp add: createGenesisBlock_def Let_def)

section \<open>The worked run, step by step\<close>

lemma genesisTx_eval: "createCoinbaseTransaction 1700000000188 ''genesis'' 100 = genesisTx"
  by (simp add: createCoinbaseTransaction_def new_Transaction_eval genesisTx_def hash_eval)

lemma genesis_merkle:
  "calculateMerkleRoot [''5bb2bf935bb2bf935bb2bf935bb2bf935bb2bf935bb2bf935bb2bf935bb2bf93''] =
     ''45fdc7d845fdc7d845fdc7d845fdc7d845fdc7d845fdc7d845fdc7d845fdc7d8''"
  by (simp add: calculateMerkleRoot_def hash_eval)

lemma genesisD_eval: "createGenesisBlock 1700000000188 1700000000188 = genesisD"
  by (simp add: createGenesisBlock_eval genesisTx_eval new_Block_eval genesisTx_def genesis_merkle
      genesisD_def hash_eval)

lemma genesisD_mined: "blk_mineBlock 2 genesisD = Some genesisD"
  by (rule blk_mineBlock_found) (simp add: genesisD_def substring_def replicate_num)

lemma ledger0_eval:
  "new_Blockchain \<lparr> cfg_difficulty = None, cfg_miningReward = None,
                     cfg_maxTransactionsPerBlock = Some 5 \<rparr> 1700000000188 1700000000188
   = Some ledger0"
  by (simp add: new_Blockchain_def genesisD_eval genesisD_mined ledger0_def)

lemma txA_eval:
  "signTransaction ''genesis-key''
     (new_Transaction \<lparr> td_from = ''genesis'', td_to = ''alice'', td_amount = 5, td_fee = 1 / 100,
                        td_timestamp = 1700000001000, td_signature = None \<rparr>) = txA"
  by (simp add: signTransaction_eval new_Transaction_eval txA_def hash_eval)

lemma txB_eval:
  "signTransaction ''genesis-key''
     (new_Transaction \<lparr> td_from = ''genesis'', td_to = ''bob'', td_amount = 5, td_fee = 1 / 100,
                        td_timestamp = 1700000002000, td_signature = None \<rparr>) = txB"
  by (simp add: signTransaction_eval new_Transaction_eval txB_def hash_eval)

lemma txC_eval:
  "signTransaction ''genesis-key''
     (new_Transaction \<lparr> td_from = ''genesis'', td_to = ''carol'', td_amount = 5, td_fee = 1 / 100,
                        td_timestamp = 1700000003000, td_signature = None \<rparr>) = txC"
  by (simp add: signTransaction_eval new_Transaction_eval txC_def hash_eval)

lemma balance_genesis: "chain bc = [genesisD] \<Longrightarrow> getBalance bc ''genesis'' = 100"
  by (simp add: getBalance_def genesisD_def genesisTx_def balanceStep_def)

lemma tx_facts:
  "isValid txA" "isValid txB" "isValid txC"
  "tx_from txA = ''genesis''" "tx_from txB = ''genesis''" "tx_from txC = ''genesis''"
  "tx_amount txA + tx_fee txA = 501 / 100" "tx_amount txB + tx_fee txB = 501 / 100"
  "tx_amount txC + tx_fee txC = 501 / 100"
  "tx_hash txA \<noteq> tx_hash txB" "tx_hash txA \<noteq> tx_hash txC" "tx_hash txB \<noteq> tx_hash txC"
  by (simp_all add: isValid_def txA_def txB_def txC_def)

lemma ledger0_fields:
  "chain ledger0 = [genesisD]" "pendingTransactions ledger0 = []" "difficulty ledger0 = 2"
  "miningReward ledger0 = 10" "maxTransactionsPerBlock ledger0 = 5"
  by (simp_all add: ledger0_def)

lemma add_txA:
  "addTransaction ledger0 txA = (True, ledger0\<lparr>pendingTransactions := [txA]\<rparr>)"
  by (simp add: addTransaction_def tx_facts balance_genesis ledger0_fields)

lemma add_txB:
  "addTransaction (ledger0\<lparr>pendingTransactions := [txA]\<rparr>) txB =
     (True, ledger0\<lparr>pendingTransactions := [txA, txB]\<rparr>)"
  by (simp add: addTransaction_def tx_facts balance_genesis ledger0_fields)

lemma add_txC:
  "addTransaction (ledger0\<lparr>pendingTransactions := [txA, txB]\<rparr>) txC = (True, ledgerD)"
  by (simp add: addTransaction_def tx_facts balance_genesis ledger0_fields ledgerD_def)

lemma selectedD:
  "take (maxTransactionsPerBlock ledgerD) (pendingTransactions ledgerD) = [txA, txB, txC]"
  by (simp add: ledgerD_def ledger0_def)

lemma feesD: "miningReward ledgerD + getTotalFees [txA, txB, txC] = 1003 / 100"
  by (simp add: ledgerD_def ledger0_def getTotalFees_def txA_def txB_def txC_def)

lemma coinbaseD_eval: "createCoinbaseTransaction 1700000030064 ''M'' (1003 / 100) = coinbaseD"
  by (simp add: createCoinbaseTransaction_def new_Transaction_eval coinbaseD_def hash_eval)

lemma merkleD:
  "calculateMerkleRoot
     [''23d1354f23d1354f23d1354f23d1354f23d1354f23d1354f23d1354f23d1354f'',
      ''59b4453359b4453359b4453359b4453359b4453359b4453359b4453359b44533'',
      ''7e3409217e3409217e3409217e3409217e3409217e3409217e3409217e340921'',
      ''5f902b7c5f902b7c5f902b7c5f902b7c5f902b7c5f902b7c5f902b7c5f902b7c''] =
     ''127c9438127c9438127c9438127c9438127c9438127c9438127c9438127c9438''"
  by (simp add: calculateMerkleRoot_def merkleLevels_pair merkleLevels_single nextLevel_pair
      nextLevel_Nil hash_eval)

lemma candidateD_eval:
  "candidateBlock ledgerD ''M'' 1700000030064 1700000030064 =
     blockD\<lparr>blk_nonce := 0,
            blk_hash := ''739bdf32739bdf32739bdf32739bdf32739bdf32739bdf32739bdf32739bdf32''\<rparr>"
  unfolding candidateBlock_def selectedD feesD coinbaseD_eval
  by (simp add: new_Block_eval ledgerD_def ledger0_def genesisD_def blockD_def coinbaseD_def
      txA_def txB_def txC_def merkleD hash_eval)

lemma minedD:
  "blk_mineBlock 2 (candidateBlock ledgerD ''M'' 1700000030064 1700000030064) = Some blockD"
  unfolding candidateD_eval
  by (simp add: blk_mineBlock_found blk_mineBlock_next mineStep_eval blockD_def hash_eval)

lemma ledgerD_fields:
  "chain ledgerD = [genesisD]" "pendingTransactions ledgerD = [txA, txB, txC]"
  "difficulty ledgerD = 2" "miningReward ledgerD = 10" "maxTransactionsPerBlock ledgerD = 5"
  by (simp_all add: ledgerD_def ledger0_def)

lemma mineBlock_ledgerD:
  "mineBlock ledgerD ''M'' 1700000030064 1700000030064 = Some (Inr (blockD, ledgerD'))"
proof -
  have ne: "chain ledgerD \<noteq> []" by (simp add: ledgerD_fields)
  have "difficulty ledgerD = 2" by (simp add: ledgerD_fields)
  with minedD have
    "blk_mineBlock (difficulty ledgerD) (candidateBlock ledgerD ''M'' 1700000030064 1700000030064)
       = Some blockD" by simp
  then show ?thesis
    by (simp add: mineBlock_unfold[OF ne]) (simp add: ledgerD_def ledger0_def ledgerD'_def)
qed

lemma merkleV:
  "calculateMerkleRoot [''59b4453359b4453359b4453359b4453359b4453359b4453359b4453359b44533''] =
     ''3bdec9483bdec9483bdec9483bdec9483bdec9483bdec9483bdec9483bdec948''"
  by (simp add: calculateMerkleRoot_def hash_eval)

lemma candidateV_eval:
  "new_Block dataV =
     blockV\<lparr>blk_nonce := 0,
            blk_hash := ''39ccd86139ccd86139ccd86139ccd86139ccd86139ccd86139ccd86139ccd861''\<rparr>"
  by (simp add: new_Block_eval dataV_def blockV_def txA_def merkleV hash_eval)

lemma minedV: "blk_mineBlock 2 (new_Block dataV) = Some blockV"
  unfolding candidateV_eval
  by (simp add: blk_mineBlock_found blk_mineBlock_next mineStep_eval blockV_def hash_eval)

lemma forged_eval: "new_Block forgedData = forgedBlock"
  by (simp add: new_Block_eval forgedData_def forgedBlock_def txA_def merkleV)

lemma forged_mined: "blk_mineBlock 2 forgedBlock = Some forgedBlock"
  by (rule blk_mineBlock_found) (simp add: forgedBlock_def substring_def replicate_num)

lemma forgedBlock_recomputed:
  "blk_calculateHash forgedBlock =
     ''5255ceed5255ceed5255ceed5255ceed5255ceed5255ceed5255ceed5255ceed''"
  by (simp add: blk_calculateHash_def forgedBlock_def hash_eval)

lemma merkleAB:
  "calculateMerkleRoot
     [''59b4453359b4453359b4453359b4453359b4453359b4453359b4453359b44533'',
      ''7e3409217e3409217e3409217e3409217e3409217e3409217e3409217e340921''] =
     ''303f6b50303f6b50303f6b50303f6b50303f6b50303f6b50303f6b50303f6b50''"
  by (simp add: calculateMerkleRoot_def merkleLevels_pair merkleLevels_single nextLevel_pair
      nextLevel_Nil hash_eval)

lemma shaAB:
  "sha256Sync
     (''59b4453359b4453359b4453359b4453359b4453359b4453359b4453359b44533'' @
      ''7e3409217e3409217e3409217e3409217e3409217e3409217e3409217e340921'') =
     ''24d1367024d1367024d1367024d1367024d1367024d1367024d1367024d13670''"
  by (simp add: hash_eval)

text \<open>
  The digest has 32 bits of state, so different blocks share a hash: \<open>blockV\<close> keeps its
  hash when the nonce 10 becomes 6360032634, and when its timestamp becomes
  1700788724569; the neighbouring nonce and timestamp change the hash.
\<close>

lemma blockV_nonce_collision:
  "blk_calculateHash (blockV\<lparr>blk_nonce := 6360032634\<rparr>) =
     ''0031cbf20031cbf20031cbf20031cbf20031cbf20031cbf20031cbf20031cbf2''"
  by (simp add: blk_calculateHash_def blockV_def hash_eval)

lemma blockV_timestamp_collision:
  "blk_calculateHash (blockV\<lparr>blk_timestamp := 1700788724569\<rparr>) =
     ''0031cbf20031cbf20031cbf20031cbf20031cbf20031cbf20031cbf20031cbf2''"
  by (simp add: blk_calculateHash_def blockV_def hash_eval)

lemma blockV_nonce_next:
  "blk_calculateHash (blockV\<lparr>blk_nonce := 11\<rparr>) =
     ''0031cbf10031cbf10031cbf10031cbf10031cbf10031cbf10031cbf10031cbf1''"
  by (simp add: blk_calculateHash_def blockV_def hash_eval)

lemma blockV_timestamp_next:
  "blk_calculateHash (blockV\<lparr>blk_timestamp := 1700000030114\<rparr>) =
     ''2470503124705031247050312470503124705031247050312470503124705031''"
  by (simp add: blk_calculateHash_def blockV_def hash_eval)

lemma blockV_fields:
  "blk_transactions blockV = [txA]" "blk_nonce blockV = 10"
  "blk_timestamp blockV = 1700000030113"
  "blk_hash blockV = ''0031cbf20031cbf20031cbf20031cbf20031cbf20031cbf20031cbf20031cbf2''"
  by (simp_all add: blockV_def)


section \<open>The properties on the worked run\<close>

theorem isValid_iff_witness:
  "isValid txA \<and> \<not> isValid coinbaseD \<and> \<not> isValid (txA\<lparr>tx_to := ''genesis''\<rparr>)
   \<and> \<not> isValid (txA\<lparr>tx_amount := 0\<rparr>) \<and> \<not> isValid (txA\<lparr>tx_fee := - 1\<rparr>)"
  using isValid_iff [of txA] isValid_iff [of coinbaseD]
    isValid_iff [of "txA\<lparr>tx_to := ''genesis''\<rparr>"]
    isValid_iff [of "txA\<lparr>tx_amount := 0\<rparr>"] isValid_iff [of "txA\<lparr>tx_fee := - 1\<rparr>"]
  by (simp add: txA_def coinbaseD_def)

lemma ledgerD'_fields:
  "chain ledgerD' = [genesisD, blockD]" "pendingTransactions ledgerD' = []"
  "difficulty ledgerD' = 2" "miningReward ledgerD' = 10" "maxTransactionsPerBlock ledgerD' = 5"
  by (simp_all add: ledgerD'_def ledger0_def)




theorem adjustDifficulty_spec_witness:
  "adjustDifficulty ledger0 = ledger0
   \<and> adjustDifficulty ledgerD' = ledgerD'
   \<and> difficulty (adjustDifficulty
        (ledger0\<lparr>chain := [genesisD, blockD\<lparr>blk_timestamp := 1700000001188\<rparr>]\<rparr>)) = 3
   \<and> difficulty (adjustDifficulty
        (ledger0\<lparr>chain := [genesisD, blockD\<lparr>blk_timestamp := 1700000100188\<rparr>]\<rparr>)) = 1
   \<and> difficulty (adjustDifficulty
        (ledger0\<lparr>chain := [genesisD, blockD\<lparr>blk_timestamp := 1700000100188\<rparr>],
                 difficulty := 1\<rparr>)) = 1"
  using adjustDifficulty_spec [of ledger0] adjustDifficulty_spec [of ledgerD']
    adjustDifficulty_spec
      [of "ledger0\<lparr>chain := [genesisD, blockD\<lparr>blk_timestamp := 1700000001188\<rparr>]\<rparr>"]
    adjustDifficulty_spec
      [of "ledger0\<lparr>chain := [genesisD, blockD\<lparr>blk_timestamp := 1700000100188\<rparr>]\<rparr>"]
    adjustDifficulty_spec
      [of "ledger0\<lparr>chain := [genesisD, blockD\<lparr>blk_timestamp := 1700000100188\<rparr>],
                    difficulty := 1\<rparr>"]
  by (simp add: ledger0_fields ledgerD'_fields genesisD_def blockD_def)

theorem export_import_roundtrip_witness:
  "map blk_hash (chain (importChain ledger0 (exportChain ledgerD'))) =
     [''00546b7d00546b7d00546b7d00546b7d00546b7d00546b7d00546b7d00546b7d'',
      ''001ff941001ff941001ff941001ff941001ff941001ff941001ff941001ff941'']
   \<and> pendingTransactions (importChain ledgerD' (exportChain ledgerD)) = [txA, txB, txC]
   \<and> difficulty (importChain ledger0 (exportChain (ledgerD'\<lparr>difficulty := 3\<rparr>))) = 3
   \<and> miningReward (importChain ledger0 (exportChain ledgerD')) = 10
   \<and> maxTransactionsPerBlock (importChain ledger0 (exportChain ledgerD')) = 5"
proof -
  have ne: "\<forall>b \<in> set (chain ledgerD'). blk_hash b \<noteq> ''''"
    "\<forall>b \<in> set (chain ledgerD). blk_hash b \<noteq> ''''"
    "\<forall>b \<in> set (chain (ledgerD'\<lparr>difficulty := 3\<rparr>)). blk_hash b \<noteq> ''''"
    by (simp_all add: ledgerD'_fields ledgerD_fields genesisD_def blockD_def)
  from export_import_roundtrip [OF ne(1), of ledger0]
    export_import_roundtrip [OF ne(2), of ledgerD']
    export_import_roundtrip [OF ne(3), of ledger0]
  show ?thesis
    by (simp add: ledgerD'_fields ledgerD_fields genesisD_def blockD_def)
qed

theorem calculateMerkleRoot_leafHashed_witness:
  "calculateMerkleRoot [tx_hash txA, tx_hash txB] =
     merkleRoot_leafHashed [tx_hash txA, tx_hash txB]
   \<and> calculateMerkleRoot [tx_hash txA, tx_hash txB] =
       sha256Sync (sha256Sync (tx_hash txA) @ sha256Sync (tx_hash txB))
   \<and> calculateMerkleRoot [tx_hash txA, tx_hash txB] =
       ''303f6b50303f6b50303f6b50303f6b50303f6b50303f6b50303f6b50303f6b50''
   \<and> length (reduceToOne (map sha256Sync [tx_hash txA, tx_hash txB])) = 1"
proof -
  note t = calculateMerkleRoot_leafHashed
    [of "[tx_hash txA, tx_hash txB]" blockV "tx_hash txC" "tx_hash txA" "tx_hash txB"
      "tx_hash txC"]
  from t have 1: "calculateMerkleRoot [tx_hash txA, tx_hash txB] =
     merkleRoot_leafHashed [tx_hash txA, tx_hash txB]" by (rule conjunct1)
  from t have 2: "calculateMerkleRoot [tx_hash txA, tx_hash txB] =
       sha256Sync (sha256Sync (tx_hash txA) @ sha256Sync (tx_hash txB))" by blast
  from t have 3: "length (reduceToOne (map sha256Sync [tx_hash txA, tx_hash txB])) = 1" by blast
  have 4: "calculateMerkleRoot [tx_hash txA, tx_hash txB] =
       ''303f6b50303f6b50303f6b50303f6b50303f6b50303f6b50303f6b50303f6b50''"
    using merkleAB by (simp add: txA_def txB_def)
  from 1 2 3 4 show ?thesis by blast
qed

theorem merkle_pair_counterexample:
  "calculateMerkleRoot [tx_hash txA, tx_hash txB] =
     ''303f6b50303f6b50303f6b50303f6b50303f6b50303f6b50303f6b50303f6b50''
   \<and> sha256Sync (tx_hash txA @ tx_hash txB) =
       ''24d1367024d1367024d1367024d1367024d1367024d1367024d1367024d13670''
   \<and> merkleRoot_asClaimed [tx_hash txA, tx_hash txB] = sha256Sync (tx_hash txA @ tx_hash txB)
   \<and> calculateMerkleRoot [tx_hash txA, tx_hash txB] \<noteq> sha256Sync (tx_hash txA @ tx_hash txB)"
proof -
  have r: "reduceToOne [a, b] = [sha256Sync (a @ b)]" for a b
    by (simp add: reduceToOne.simps[of "[a, b]"] reduceToOne.simps[of "[sha256Sync (a @ b)]"])
  have m: "calculateMerkleRoot [tx_hash txA, tx_hash txB] =
     ''303f6b50303f6b50303f6b50303f6b50303f6b50303f6b50303f6b50303f6b50''"
    using merkleAB by (simp add: txA_def txB_def)
  have s: "sha256Sync (tx_hash txA @ tx_hash txB) =
       ''24d1367024d1367024d1367024d1367024d1367024d1367024d1367024d13670''"
    using shaAB by (simp add: txA_def txB_def)
  have c: "merkleRoot_asClaimed [tx_hash txA, tx_hash txB] = sha256Sync (tx_hash txA @ tx_hash txB)"
    by (simp add: merkleRoot_asClaimed_def r)
  show ?thesis
    unfolding c unfolding m s by simp
qed

theorem mineBlock_proof_of_work_witness:
  "blk_mineBlock 2 (candidateBlock ledgerD ''M'' 1700000030064 1700000030064) = Some blockD
   \<and> blk_nonce blockD = 10
   \<and> isValidProofOfWork (blk_hash blockD) 2
   \<and> take 2 (blk_hash blockD) = ''00''
   \<and> blk_hash blockD = blk_calculateHash blockD"
proof -
  have moved: "blk_nonce blockD \<noteq> blk_nonce (candidateBlock ledgerD ''M'' 1700000030064 1700000030064)"
    by (simp add: candidateD_eval) (simp add: blockD_def)
  from mineBlock_proof_of_work [OF minedD] moved minedD show ?thesis
    by (simp add: replicate_num) (simp add: blockD_def)
qed

theorem forged_hash_counterexample:
  "new_Block forgedData = forgedBlock
   \<and> (1 :: nat) \<le> 2
   \<and> blk_mineBlock 2 forgedBlock = Some forgedBlock
   \<and> isValidProofOfWork (blk_hash forgedBlock) 2
   \<and> blk_hash forgedBlock \<noteq> blk_calculateHash forgedBlock"
proof -
  have "isValidProofOfWork (blk_hash forgedBlock) 2"
    by (simp add: isValidProofOfWork_def forgedBlock_def substring_def replicate_num)
  moreover have "blk_hash forgedBlock \<noteq> blk_calculateHash forgedBlock"
    unfolding forgedBlock_recomputed by (simp add: forgedBlock_def)
  ultimately show ?thesis
    using forged_eval forged_mined by simp
qed

lemma dataV_fields: "bd_hash dataV = None" "bd_transactions dataV = [txA]"
  by (simp_all add: dataV_def)

theorem mined_block_validity_witness:
  "blk_mineBlock 2 (new_Block dataV) = Some blockV
   \<and> blk_hash blockV = blk_calculateHash blockV
   \<and> blk_merkleRoot blockV = blk_calculateMerkleRoot blockV
   \<and> isValidProofOfWork (blk_hash blockV) 2
   \<and> isValidBlock blockV None None
   \<and> \<not> isValidBlock (blockV\<lparr>blk_nonce := 11\<rparr>) None None
   \<and> \<not> isValidBlock (blockV\<lparr>blk_timestamp := 1700000030114\<rparr>) None None
   \<and> \<not> isValidBlock (blockV\<lparr>blk_transactions := [txA\<lparr>tx_amount := 0\<rparr>]\<rparr>) None None"
proof -
  note t = mined_block_validity [OF dataV_fields(1) refl minedV,
      where k = 0 and a = 0 and n = 11 and ts = 1700000030114]
  have v: "list_all isValid (bd_transactions dataV)"
    "\<not> list_all isValid ((bd_transactions dataV)[0 := (bd_transactions dataV ! 0)\<lparr>tx_amount := 0\<rparr>])"
    by (simp_all add: dataV_fields isValid_def txA_def)
  from t have 1: "blk_hash blockV = blk_calculateHash blockV" by blast
  from t have 2: "blk_merkleRoot blockV = blk_calculateMerkleRoot blockV" by blast
  from t have 3: "isValidProofOfWork (blk_hash blockV) 2" by blast
  from t v(1) have 4: "isValidBlock blockV None None" by blast
  from t v(2) have "\<not> isValidBlock
      (blockV\<lparr>blk_transactions :=
         (bd_transactions dataV)[0 := (bd_transactions dataV ! 0)\<lparr>tx_amount := 0\<rparr>]\<rparr>) None None"
    by (simp add: dataV_fields)
  then have 5: "\<not> isValidBlock (blockV\<lparr>blk_transactions := [txA\<lparr>tx_amount := 0\<rparr>]\<rparr>) None None"
    by (simp add: dataV_fields)
  have "blk_calculateHash (blockV\<lparr>blk_nonce := 11\<rparr>) \<noteq> blk_hash blockV"
    unfolding blockV_nonce_next blockV_fields by simp
  with t have 6: "\<not> isValidBlock (blockV\<lparr>blk_nonce := 11\<rparr>) None None" by blast
  have "blk_calculateHash (blockV\<lparr>blk_timestamp := 1700000030114\<rparr>) \<noteq> blk_hash blockV"
    unfolding blockV_timestamp_next blockV_fields by simp
  with t have 7: "\<not> isValidBlock (blockV\<lparr>blk_timestamp := 1700000030114\<rparr>) None None" by blast
  from minedV 1 2 3 4 5 6 7 show ?thesis by blast
qed

theorem flipped_fields_counterexample:
  "blk_mineBlock 2 (new_Block dataV) = Some blockV
   \<and> isValidBlock blockV None None
   \<and> blk_nonce blockV = 10
   \<and> isValidBlock (blockV\<lparr>blk_nonce := 6360032634\<rparr>) None None
   \<and> blk_timestamp blockV = 1700000030113
   \<and> isValidBlock (blockV\<lparr>blk_timestamp := 1700788724569\<rparr>) None None
   \<and> blk_transactions blockV = [txA] \<and> tx_amount txA = 5
   \<and> isValidBlock (blockV\<lparr>blk_transactions := [txA\<lparr>tx_amount := 6\<rparr>]\<rparr>) None None"
proof -
  have m: "minedFrom 2 (new_Block dataV) blockV"
    using minedV by (rule blk_mineBlock_minedFrom)
  have h: "blk_hash blockV = blk_calculateHash blockV"
    using m by (rule minedFrom_consistent) (simp add: new_Block_hash dataV_fields)
  have r: "blk_merkleRoot blockV = blk_calculateMerkleRoot blockV"
    using m by (rule minedFrom_merkle) (simp add: new_Block_fields)
  have v: "isValidBlock blockV None None"
    using h r by (simp add: isValidBlock_plain blockV_fields tx_facts)
  have rn: "blk_calculateMerkleRoot (blockV\<lparr>blk_nonce := 6360032634\<rparr>) = blk_calculateMerkleRoot blockV"
    by (rule blk_calculateMerkleRoot_cong) simp
  have vn: "isValidBlock (blockV\<lparr>blk_nonce := 6360032634\<rparr>) None None"
    using r by (simp add: isValidBlock_plain rn blockV_nonce_collision blockV_fields tx_facts)
  have rt: "blk_calculateMerkleRoot (blockV\<lparr>blk_timestamp := 1700788724569\<rparr>) =
      blk_calculateMerkleRoot blockV"
    by (rule blk_calculateMerkleRoot_cong) simp
  have vt: "isValidBlock (blockV\<lparr>blk_timestamp := 1700788724569\<rparr>) None None"
    using r by (simp add: isValidBlock_plain rt blockV_timestamp_collision blockV_fields tx_facts)
  have ra: "blk_calculateMerkleRoot (blockV\<lparr>blk_transactions := [txA\<lparr>tx_amount := 6\<rparr>]\<rparr>) =
      blk_calculateMerkleRoot blockV"
    by (rule blk_calculateMerkleRoot_cong) (simp add: blockV_fields)
  have "isValid (txA\<lparr>tx_amount := 6\<rparr>)"
    by (simp add: isValid_def txA_def)
  with h r ra have va: "isValidBlock (blockV\<lparr>blk_transactions := [txA\<lparr>tx_amount := 6\<rparr>]\<rparr>) None None"
    by (simp add: isValidBlock_plain)
  have "tx_amount txA = 5" by (simp add: txA_def)
  with minedV v vn vt va show ?thesis
    by (simp add: blockV_fields)
qed



theorem mined_chain_not_valid_witness:
  "mineBlock ledgerD ''M'' 1700000030064 1700000030064 = Some (Inr (blockD, ledgerD'))
   \<and> length (chain ledgerD') = 2
   \<and> hd (blk_transactions blockD) = coinbaseD
   \<and> tx_signature coinbaseD = ''''
   \<and> \<not> isValid coinbaseD
   \<and> \<not> isValidBlock blockD (Some genesisD) (Some 2)
   \<and> \<not> isChainValid ledgerD'
   \<and> \<not> isChainValid (ledgerD'\<lparr>difficulty := 1\<rparr>)"
proof -
  have hd: "hd (blk_transactions blockD) = coinbaseD"
    by (simp add: blockD_def)
  have same: "ledgerD'\<lparr>chain := chain ledgerD' @ [],
                       pendingTransactions := pendingTransactions ledgerD', difficulty := 1\<rparr>
              = ledgerD'\<lparr>difficulty := 1\<rparr>"
    by simp
  note t = mined_chain_not_valid
    [OF mineBlock_ledgerD, where previousBlock = "Some genesisD" and d = "Some 2"
      and later = "[]" and pool = "pendingTransactions ledgerD'" and d' = 1]
  from t [unfolded same] mineBlock_ledgerD hd
  show ?thesis
    by (simp add: ledgerD'_fields)
qed

end
